theory Spec2Isabelle
  imports Main
begin

section \<open>Resource helpers of pkg/module/util.go\<close>

text \<open>
  The Go file \<^verbatim>\<open>pkg/module/util.go\<close> derives resource identifiers and wraps Kubernetes
  and Terraform resources into the engine's resource record. Go strings are byte
  sequences and are modelled by \<^typ>\<open>string\<close>. Go maps are reference values: a map
  variable holds either \<^verbatim>\<open>nil\<close> or the address of a map object, and assigning it
  shares the object. The model therefore keeps the map objects in an explicit store.
\<close>

subsection \<open>The standard library functions the file calls\<close>

text \<open>
  \<^verbatim>\<open>strings.Split(s, sep)\<close> for a separator of one byte (the file splits on
  \<^verbatim>\<open>"/"\<close>, and its identifiers are separated by \<^verbatim>\<open>":"\<close>): the substrings
  between the separators, so the result has one more element than \<^verbatim>\<open>s\<close> has
  separators, and the empty string splits into one empty element.
\<close>

fun Split :: "string \<Rightarrow> char \<Rightarrow> string list" where
  "Split [] sep = [[]]"
| "Split (c # s) sep =
     (if c = sep then [] # Split s sep
      else (case Split s sep of
              [] \<Rightarrow> [[c]]
            | w # ws \<Rightarrow> (c # w) # ws))"

text \<open>\<^verbatim>\<open>strings.Join(elems, sep)\<close>: the elements with the separator between them.\<close>

fun Join :: "string list \<Rightarrow> string \<Rightarrow> string" where
  "Join [] sep = []"
| "Join [a] sep = a"
| "Join (a # b # bs) sep = a @ sep @ Join (b # bs) sep"

subsection \<open>Values, maps and the store\<close>

type_synonym addr = nat

text \<open>A map value: \<open>None\<close> is Go's nil map, \<open>Some a\<close> the map object at address \<open>a\<close>.\<close>

type_synonym map_ref = "addr option"

text \<open>
  A value of the interface type \<^verbatim>\<open>any\<close>, by its dynamic type: the nil interface, a
  bool, an integer, a string, a map (\<^verbatim>\<open>map[string]any\<close>, which \<^verbatim>\<open>v1.GenericConfig\<close>
  is), or a slice of such values.
\<close>

datatype any =
    AnyNil
  | AnyBool bool
  | AnyInt int
  | AnyString string
  | AnyMap map_ref
  | AnySlice "any list"

type_synonym gomap = "string \<rightharpoonup> any"

text \<open>The store holds the map objects; an object's address is its position.\<close>

type_synonym heap = "gomap list"

text \<open>A map literal allocates a fresh object and yields its address.\<close>

definition make_map :: "heap \<Rightarrow> gomap \<Rightarrow> map_ref \<times> heap" where
  "make_map h m = (Some (length h), h @ [m])"

text \<open>
  The two-valued index expression \<^verbatim>\<open>v, ok := m[k]\<close>: \<open>None\<close> stands for
  \<^verbatim>\<open>ok = false\<close>. Indexing a nil map finds nothing. (A Go reference always points at
  an allocated object; an address outside the store finds nothing here.)
\<close>

definition map_index :: "heap \<Rightarrow> map_ref \<Rightarrow> string \<Rightarrow> any option" where
  "map_index h r k =
     (case r of
        None \<Rightarrow> None
      | Some a \<Rightarrow> if a < length h then (h ! a) k else None)"

text \<open>The key set of a map value (empty for the nil map).\<close>

definition map_keys :: "heap \<Rightarrow> map_ref \<Rightarrow> string set" where
  "map_keys h r = {k. map_index h r k \<noteq> None}"

subsection \<open>Errors and panics\<close>

text \<open>
  The file returns the package variable \<^verbatim>\<open>ErrEmptyTFProviderVersion\<close> or an error
  built by \<^verbatim>\<open>fmt.Errorf\<close>, modelled by its formatted message.
\<close>

datatype error = ErrEmptyTFProviderVersion | Errorf string

text \<open>A function that can panic either panics or returns.\<close>

datatype 'a result = Panics | Returns 'a

text \<open>The names the specification's error taxonomy gives to these error values.\<close>

definition EmptyProviderVersion :: error where
  "EmptyProviderVersion = ErrEmptyTFProviderVersion"

definition EmptySource :: error where
  "EmptySource = Errorf ''empty terraform provider source''"

definition EmptyResourceType :: error where
  "EmptyResourceType = Errorf ''empty resource type''"

definition InvalidProviderSource :: "string \<Rightarrow> error" where
  "InvalidProviderSource src = Errorf (''invalid terraform provider source: '' @ src)"

subsection \<open>Records\<close>

text \<open>The fields of \<^verbatim>\<open>metav1.TypeMeta\<close> and \<^verbatim>\<open>metav1.ObjectMeta\<close> the file reads.\<close>

record TypeMeta =
  APIVersion :: string
  Kind :: string

record ObjectMeta =
  Name :: string
  Namespace :: string

record ProviderConfig =
  Source :: string
  Version :: string
  ProviderMeta :: map_ref

text \<open>The resource types \<^verbatim>\<open>v1.Kubernetes\<close> and \<^verbatim>\<open>v1.Terraform\<close>.\<close>

datatype ResourceType = Kubernetes | Terraform

text \<open>
  \<^verbatim>\<open>v1.Resource\<close>. A slice is modelled by its contents, \<open>None\<close> for the nil slice:
  no function of the file reads or writes a slice element.
\<close>

record Resource =
  ID :: string
  Type :: ResourceType
  Attributes :: map_ref
  DependsOn :: "string list option"
  Extensions :: map_ref

definition defaultTFHost :: string where
  "defaultTFHost = ''registry.terraform.io''"

subsection \<open>The functions\<close>

text \<open>
  The collaborators of \<^verbatim>\<open>k8s.io/apimachinery\<close> and the constant
  \<^verbatim>\<open>v1.ResourceExtensionGVK\<close>, taken as parameters: \<open>assert_Object\<close> is the type
  assertion \<^verbatim>\<open>resource.(runtime.Object)\<close>, \<open>None\<close> when the dynamic type of the
  resource does not implement the interface (the assertion then panics);
  \<open>GroupVersionKind_String\<close> is \<^verbatim>\<open>GetObjectKind().GroupVersionKind().String()\<close>
  on the asserted object, which panics for instance on a typed nil pointer;
  \<open>ToUnstructured\<close> is \<^verbatim>\<open>runtime.DefaultUnstructuredConverter.ToUnstructured\<close>,
  which allocates the map it returns or returns an error. A panic of a collaborator is
  a panic of the caller.
\<close>

record ('r, 'o) runtime =
  assert_Object :: "'r \<Rightarrow> 'o option"
  GroupVersionKind_String :: "'o \<Rightarrow> string result"
  ToUnstructured :: "heap \<Rightarrow> 'r \<Rightarrow> ((error + map_ref) \<times> heap) result"
  ResourceExtensionGVK :: string

definition WrapK8sResourceToKusionResource ::
  "('r, 'o) runtime \<Rightarrow> heap \<Rightarrow> string \<Rightarrow> 'r \<Rightarrow> ((error + Resource) \<times> heap) result" where
  "WrapK8sResourceToKusionResource rt h id' resource =
     (case assert_Object rt resource of
        None \<Rightarrow> Panics
      | Some obj \<Rightarrow>
          (case GroupVersionKind_String rt obj of
             Panics \<Rightarrow> Panics
           | Returns gvk \<Rightarrow>
               (case ToUnstructured rt h resource of
                  Panics \<Rightarrow> Panics
                | Returns (Inl err, h1) \<Rightarrow> Returns (Inl err, h1)
                | Returns (Inr unstructured, h1) \<Rightarrow>
                    (let (extensions, h2) =
                           make_map h1 [ResourceExtensionGVK rt \<mapsto> AnyString gvk]
                     in Returns
                          (Inr \<lparr>ID = id', Type = Kubernetes, Attributes = unstructured,
                                DependsOn = None, Extensions = extensions\<rparr>, h2)))))"

definition KubernetesResourceID :: "TypeMeta \<Rightarrow> ObjectMeta \<Rightarrow> string" where
  "KubernetesResourceID typeMeta objectMeta =
     (let id0 = APIVersion typeMeta @ '':'' @ Kind typeMeta @ '':'';
          id1 = (if Namespace objectMeta \<noteq> '''' then id0 @ Namespace objectMeta @ '':''
                 else id0)
      in id1 @ Name objectMeta)"

definition TerraformResourceID :: "ProviderConfig \<Rightarrow> string \<Rightarrow> string \<Rightarrow> error + string" where
  "TerraformResourceID providerCfg resType resName =
     (if Version providerCfg = '''' then Inl ErrEmptyTFProviderVersion
      else
        (let srcAttrs = Split (Source providerCfg) CHR ''/'' in
         if length srcAttrs = 3 then
           Inr (Join [srcAttrs ! 1, srcAttrs ! 2, resType, resName] '':'')
         else if length srcAttrs = 2 then
           Inr (Join [srcAttrs ! 0, srcAttrs ! 1, resType, resName] '':'')
         else
           Inl (Errorf (''invalid terraform provider source: '' @ Source providerCfg))))"

definition TerraformProviderExtensions ::
  "heap \<Rightarrow> ProviderConfig \<Rightarrow> string \<Rightarrow> (error + map_ref) \<times> heap" where
  "TerraformProviderExtensions h providerCfg resType =
     (if Version providerCfg = '''' then (Inl ErrEmptyTFProviderVersion, h)
      else if Source providerCfg = '''' then
        (Inl (Errorf ''empty terraform provider source''), h)
      else if resType = '''' then (Inl (Errorf ''empty resource type''), h)
      else
        (let srcAttrs = Split (Source providerCfg) CHR ''/'' in
         case (if length srcAttrs = 3 then
                 Inr (Join [Source providerCfg, Version providerCfg] ''/'')
               else if length srcAttrs = 2 then
                 Inr (Join [defaultTFHost, Source providerCfg, Version providerCfg] ''/'')
               else
                 Inl (Errorf (''invalid terraform provider source: '' @ Source providerCfg)))
         of
           Inl err \<Rightarrow> (Inl err, h)
         | Inr providerURL \<Rightarrow>
             (let (m, h') =
                    make_map h
                      [''provider'' \<mapsto> AnyString providerURL,
                       ''providerMeta'' \<mapsto> AnyMap (ProviderMeta providerCfg),
                       ''resourceType'' \<mapsto> AnyString resType]
              in (Inr m, h'))))"

definition WrapTFResourceToKusionResource ::
  "heap \<Rightarrow> ProviderConfig \<Rightarrow> string \<Rightarrow> string \<Rightarrow> map_ref \<Rightarrow> string list option
     \<Rightarrow> (error + Resource) \<times> heap" where
  "WrapTFResourceToKusionResource h providerCfg resType resourceID attributes dependsOn =
     (case TerraformProviderExtensions h providerCfg resType of
        (Inl err, h') \<Rightarrow> (Inl err, h')
      | (Inr extensions, h') \<Rightarrow>
          (Inr \<lparr>ID = resourceID, Type = Terraform, Attributes = attributes,
                DependsOn = dependsOn, Extensions = extensions\<rparr>, h'))"

definition TerraformProviderRegion :: "heap \<Rightarrow> ProviderConfig \<Rightarrow> string result" where
  "TerraformProviderRegion h providerCfg =
     (case map_index h (ProviderMeta providerCfg) ''region'' of
        None \<Rightarrow> Returns ''''
      | Some region \<Rightarrow>
          (case region of
             AnyString s \<Rightarrow> Returns s
           | _ \<Rightarrow> Panics))"

section \<open>Properties\<close>

subsection \<open>Splitting and the checked path of the extensions\<close>

lemma Split_length: "length (Split s c) = Suc (count_list s c)"
  by (induction s) (auto split: list.splits)

lemma count_list_zero: "c \<notin> set s \<Longrightarrow> count_list s c = 0"
  by (induction s) auto

text \<open>
  Once the three emptiness checks have passed, \<open>TerraformProviderExtensions\<close> depends
  on the number of segments only: it allocates the extensions map, or fails and leaves
  the store as it was.
\<close>

lemma TerraformProviderExtensions_checked:
  assumes "Version cfg \<noteq> ''''" and "Source cfg \<noteq> ''''" and "resType \<noteq> ''''"
  shows "TerraformProviderExtensions h cfg resType =
    (if length (Split (Source cfg) CHR ''/'') = 3 then
       (Inr (Some (length h)),
        h @ [[''provider'' \<mapsto> AnyString (Source cfg @ ''/'' @ Version cfg),
              ''providerMeta'' \<mapsto> AnyMap (ProviderMeta cfg),
              ''resourceType'' \<mapsto> AnyString resType]])
     else if length (Split (Source cfg) CHR ''/'') = 2 then
       (Inr (Some (length h)),
        h @ [[''provider'' \<mapsto>
                AnyString (''registry.terraform.io/'' @ Source cfg @ ''/'' @ Version cfg),
              ''providerMeta'' \<mapsto> AnyMap (ProviderMeta cfg),
              ''resourceType'' \<mapsto> AnyString resType]])
     else (Inl (InvalidProviderSource (Source cfg)), h))"
  using assms
  by (simp add: TerraformProviderExtensions_def make_map_def InvalidProviderSource_def
        defaultTFHost_def Let_def)

lemma KubernetesResourceID_segments:
  "length (Split (KubernetesResourceID typeMeta objectMeta) CHR '':'') =
     (if Namespace objectMeta = '''' then 3 else 4) +
     count_list (APIVersion typeMeta @ Kind typeMeta @ Namespace objectMeta @ Name objectMeta)
       CHR '':''"
  by (simp add: KubernetesResourceID_def Split_length)

subsection \<open>The provider URL\<close>

text \<open>
  C1. For a provider config with non-empty version, source and resource type: when the
  source splits on \<^verbatim>\<open>/\<close> into exactly two segments, \<open>TerraformProviderExtensions\<close>
  returns a map whose \<^verbatim>\<open>provider\<close> entry is
  \<^verbatim>\<open>"registry.terraform.io/" + source + "/" + version\<close>; when it splits into exactly
  three segments, the entry is \<^verbatim>\<open>source + "/" + version\<close>.
\<close>

theorem TerraformProviderExtensions_provider:
  assumes "Version cfg \<noteq> ''''" and "Source cfg \<noteq> ''''" and "resType \<noteq> ''''"
  shows "(length (Split (Source cfg) CHR ''/'') = 2 \<longrightarrow>
            (\<exists>ext h'. TerraformProviderExtensions h cfg resType = (Inr ext, h') \<and>
               map_index h' ext ''provider'' =
                 Some (AnyString (''registry.terraform.io/'' @ Source cfg @ ''/'' @ Version cfg)))) \<and>
         (length (Split (Source cfg) CHR ''/'') = 3 \<longrightarrow>
            (\<exists>ext h'. TerraformProviderExtensions h cfg resType = (Inr ext, h') \<and>
               map_index h' ext ''provider'' =
                 Some (AnyString (Source cfg @ ''/'' @ Version cfg))))"
  by (simp add: TerraformProviderExtensions_checked [OF assms] map_index_def)

theorem TerraformProviderExtensions_provider_witness:
  "(\<exists>ext h'. TerraformProviderExtensions []
        \<lparr>Source = ''hashicorp/aws'', Version = ''5.0.0'', ProviderMeta = None\<rparr>
        ''aws_s3_bucket'' = (Inr ext, h') \<and>
      map_index h' ext ''provider'' =
        Some (AnyString ''registry.terraform.io/hashicorp/aws/5.0.0'')) \<and>
   (\<exists>ext h'. TerraformProviderExtensions []
        \<lparr>Source = ''registry.customized.io/hashicorp/aws'', Version = ''5.0.0'',
          ProviderMeta = None\<rparr>
        ''aws_s3_bucket'' = (Inr ext, h') \<and>
      map_index h' ext ''provider'' =
        Some (AnyString ''registry.customized.io/hashicorp/aws/5.0.0''))"
  using TerraformProviderExtensions_provider
          [of "\<lparr>Source = ''hashicorp/aws'', Version = ''5.0.0'', ProviderMeta = None\<rparr>"
              "''aws_s3_bucket''" "[]"]
        TerraformProviderExtensions_provider
          [of "\<lparr>Source = ''registry.customized.io/hashicorp/aws'', Version = ''5.0.0'',
                 ProviderMeta = None\<rparr>"
              "''aws_s3_bucket''" "[]"]
  by simp

subsection \<open>Invalid provider sources\<close>

text \<open>
  C2, as amended. With a non-empty version, \<open>TerraformResourceID\<close> fails, and fails
  with \<open>InvalidProviderSource\<close>, exactly when the source does not split on \<^verbatim>\<open>/\<close>
  into exactly 2 or 3 segments; with non-empty version, source and resource type, so does
  \<open>TerraformProviderExtensions\<close>. Only the number of segments is checked: a segment
  may be the empty string.
\<close>

theorem InvalidProviderSource_iff_segment_count:
  "(Version cfg \<noteq> '''' \<longrightarrow>
      (TerraformResourceID cfg resType resName = Inl (InvalidProviderSource (Source cfg)))
        = (length (Split (Source cfg) CHR ''/'') \<noteq> 2 \<and>
           length (Split (Source cfg) CHR ''/'') \<noteq> 3) \<and>
      isl (TerraformResourceID cfg resType resName)
        = (length (Split (Source cfg) CHR ''/'') \<noteq> 2 \<and>
           length (Split (Source cfg) CHR ''/'') \<noteq> 3)) \<and>
   (Version cfg \<noteq> '''' \<and> Source cfg \<noteq> '''' \<and> resType \<noteq> '''' \<longrightarrow>
      (TerraformProviderExtensions h cfg resType
         = (Inl (InvalidProviderSource (Source cfg)), h))
        = (length (Split (Source cfg) CHR ''/'') \<noteq> 2 \<and>
           length (Split (Source cfg) CHR ''/'') \<noteq> 3) \<and>
      isl (fst (TerraformProviderExtensions h cfg resType))
        = (length (Split (Source cfg) CHR ''/'') \<noteq> 2 \<and>
           length (Split (Source cfg) CHR ''/'') \<noteq> 3))"
proof (intro conjI impI)
  assume "Version cfg \<noteq> ''''"
  then show "(TerraformResourceID cfg resType resName = Inl (InvalidProviderSource (Source cfg)))
        = (length (Split (Source cfg) CHR ''/'') \<noteq> 2 \<and>
           length (Split (Source cfg) CHR ''/'') \<noteq> 3)"
    by (simp add: TerraformResourceID_def InvalidProviderSource_def Let_def)
next
  assume "Version cfg \<noteq> ''''"
  then show "isl (TerraformResourceID cfg resType resName)
        = (length (Split (Source cfg) CHR ''/'') \<noteq> 2 \<and>
           length (Split (Source cfg) CHR ''/'') \<noteq> 3)"
    by (simp add: TerraformResourceID_def Let_def)
next
  assume "Version cfg \<noteq> '''' \<and> Source cfg \<noteq> '''' \<and> resType \<noteq> ''''"
  then show "(TerraformProviderExtensions h cfg resType
         = (Inl (InvalidProviderSource (Source cfg)), h))
        = (length (Split (Source cfg) CHR ''/'') \<noteq> 2 \<and>
           length (Split (Source cfg) CHR ''/'') \<noteq> 3)"
    by (simp add: TerraformProviderExtensions_checked)
next
  assume "Version cfg \<noteq> '''' \<and> Source cfg \<noteq> '''' \<and> resType \<noteq> ''''"
  then show "isl (fst (TerraformProviderExtensions h cfg resType))
        = (length (Split (Source cfg) CHR ''/'') \<noteq> 2 \<and>
           length (Split (Source cfg) CHR ''/'') \<noteq> 3)"
    by (simp add: TerraformProviderExtensions_checked)
qed

theorem InvalidProviderSource_iff_segment_count_witness:
  "TerraformResourceID \<lparr>Source = ''a/b/c/d'', Version = ''1'', ProviderMeta = None\<rparr> ''t'' ''n''
     = Inl (InvalidProviderSource ''a/b/c/d'') \<and>
   TerraformProviderExtensions [] \<lparr>Source = ''a/b/c/d'', Version = ''1'', ProviderMeta = None\<rparr> ''t''
     = (Inl (InvalidProviderSource ''a/b/c/d''), []) \<and>
   \<not> isl (TerraformResourceID
            \<lparr>Source = ''hashicorp/aws'', Version = ''1'', ProviderMeta = None\<rparr> ''t'' ''n'') \<and>
   \<not> isl (fst (TerraformProviderExtensions []
            \<lparr>Source = ''hashicorp/aws'', Version = ''1'', ProviderMeta = None\<rparr> ''t''))"
  using InvalidProviderSource_iff_segment_count
          [of "\<lparr>Source = ''a/b/c/d'', Version = ''1'', ProviderMeta = None\<rparr>"
              "''t''" "''n''" "[]"]
        InvalidProviderSource_iff_segment_count
          [of "\<lparr>Source = ''hashicorp/aws'', Version = ''1'', ProviderMeta = None\<rparr>"
              "''t''" "''n''" "[]"]
  by simp

text \<open>
  The source \<^verbatim>\<open>"hashicorp/"\<close> splits into two segments, the second one empty, and
  both functions succeed on it: an empty segment does not fail with
  \<open>InvalidProviderSource\<close>.
\<close>

theorem TerraformResourceID_empty_segment_counterexample:
  "Split ''hashicorp/'' CHR ''/'' = [''hashicorp'', ''''] \<and>
   TerraformResourceID \<lparr>Source = ''hashicorp/'', Version = ''5.0.0'', ProviderMeta = None\<rparr>
       ''aws_s3_bucket'' ''b''
     = Inr ''hashicorp::aws_s3_bucket:b'' \<and>
   fst (TerraformProviderExtensions []
          \<lparr>Source = ''hashicorp/'', Version = ''5.0.0'', ProviderMeta = None\<rparr> ''aws_s3_bucket'')
     = Inr (Some 0)"
  by (simp add: TerraformResourceID_def TerraformProviderExtensions_def make_map_def)

subsection \<open>The Terraform resource identifier\<close>

text \<open>
  C3. For a provider config with non-empty version whose source splits on \<^verbatim>\<open>/\<close>
  into 2 segments (namespace, name) or 3 segments (host, namespace, name),
  \<open>TerraformResourceID\<close> returns
  \<^verbatim>\<open>namespace + ":" + name + ":" + resType + ":" + resName\<close>. Neither the host nor the
  version is part of the id: two configs that differ only in the host, or only in the
  (non-empty) version, get the same id.
\<close>

theorem TerraformResourceID_grammar:
  assumes "Version cfg \<noteq> ''''"
  shows "(Split (Source cfg) CHR ''/'' = [namespace, name] \<longrightarrow>
            TerraformResourceID cfg resType resName =
              Inr (namespace @ '':'' @ name @ '':'' @ resType @ '':'' @ resName)) \<and>
         (Split (Source cfg) CHR ''/'' = [host, namespace, name] \<longrightarrow>
            TerraformResourceID cfg resType resName =
              Inr (namespace @ '':'' @ name @ '':'' @ resType @ '':'' @ resName)) \<and>
         (\<forall>cfg' host'.
            Version cfg' \<noteq> '''' \<and>
            Split (Source cfg) CHR ''/'' = [host, namespace, name] \<and>
            Split (Source cfg') CHR ''/'' = [host', namespace, name] \<longrightarrow>
            TerraformResourceID cfg' resType resName = TerraformResourceID cfg resType resName) \<and>
         (\<forall>v. v \<noteq> '''' \<longrightarrow>
            TerraformResourceID (cfg\<lparr>Version := v\<rparr>) resType resName =
              TerraformResourceID cfg resType resName)"
  using assms by (auto simp: TerraformResourceID_def Let_def)

theorem TerraformResourceID_grammar_witness:
  "TerraformResourceID \<lparr>Source = ''hashicorp/aws'', Version = ''5.0.0'', ProviderMeta = None\<rparr>
       ''aws_s3_bucket'' ''b'' = Inr ''hashicorp:aws:aws_s3_bucket:b'' \<and>
   TerraformResourceID
       \<lparr>Source = ''registry.customized.io/hashicorp/aws'', Version = ''5.0.0'', ProviderMeta = None\<rparr>
       ''aws_s3_bucket'' ''b'' = Inr ''hashicorp:aws:aws_s3_bucket:b'' \<and>
   TerraformResourceID
       \<lparr>Source = ''mirror.example.org/hashicorp/aws'', Version = ''4.1.0'', ProviderMeta = None\<rparr>
       ''aws_s3_bucket'' ''b'' =
     TerraformResourceID
       \<lparr>Source = ''registry.customized.io/hashicorp/aws'', Version = ''5.0.0'', ProviderMeta = None\<rparr>
       ''aws_s3_bucket'' ''b'' \<and>
   TerraformResourceID
       \<lparr>Source = ''hashicorp/aws'', Version = ''4.1.0'', ProviderMeta = None\<rparr>
       ''aws_s3_bucket'' ''b'' =
     TerraformResourceID
       \<lparr>Source = ''hashicorp/aws'', Version = ''5.0.0'', ProviderMeta = None\<rparr>
       ''aws_s3_bucket'' ''b''"
proof -
  let ?c2 = "\<lparr>Source = ''hashicorp/aws'', Version = ''5.0.0'', ProviderMeta = None\<rparr>"
  let ?c3 = "\<lparr>Source = ''registry.customized.io/hashicorp/aws'', Version = ''5.0.0'',
               ProviderMeta = None\<rparr>"
  let ?c3' = "\<lparr>Source = ''mirror.example.org/hashicorp/aws'', Version = ''4.1.0'',
               ProviderMeta = None\<rparr>"
  have v2: "Version ?c2 \<noteq> ''''" and v3: "Version ?c3 \<noteq> ''''" by simp_all
  have s2: "Split (Source ?c2) CHR ''/'' = [''hashicorp'', ''aws'']" by simp
  have s3: "Split (Source ?c3) CHR ''/'' = [''registry.customized.io'', ''hashicorp'', ''aws'']"
    by simp
  have s3': "Version ?c3' \<noteq> '''' \<and>
             Split (Source ?c3) CHR ''/'' = [''registry.customized.io'', ''hashicorp'', ''aws''] \<and>
             Split (Source ?c3') CHR ''/'' = [''mirror.example.org'', ''hashicorp'', ''aws'']"
    by simp
  note t2 = TerraformResourceID_grammar
              [OF v2, of "''hashicorp''" "''aws''" "''aws_s3_bucket''" "''b''" "''x''"]
  note t3 = TerraformResourceID_grammar
              [OF v3, of "''hashicorp''" "''aws''" "''aws_s3_bucket''" "''b''"
                 "''registry.customized.io''"]
  have a: "TerraformResourceID ?c2 ''aws_s3_bucket'' ''b'' = Inr ''hashicorp:aws:aws_s3_bucket:b''"
    using t2 s2 by simp
  have b: "TerraformResourceID ?c3 ''aws_s3_bucket'' ''b'' = Inr ''hashicorp:aws:aws_s3_bucket:b''"
    using t3 s3 by simp
  have c: "TerraformResourceID ?c3' ''aws_s3_bucket'' ''b''
            = TerraformResourceID ?c3 ''aws_s3_bucket'' ''b''"
    using t3 s3' by blast
  have d: "TerraformResourceID (?c2\<lparr>Version := ''4.1.0''\<rparr>) ''aws_s3_bucket'' ''b''
            = TerraformResourceID ?c2 ''aws_s3_bucket'' ''b''"
    using t2 by simp
  from a b c d show ?thesis by simp
qed

subsection \<open>The extensions: order of the checks and the returned map\<close>

text \<open>
  C4. \<open>TerraformProviderExtensions\<close> checks in the declared order: an empty version
  fails with \<open>EmptyProviderVersion\<close> whatever the source and the resource type are;
  otherwise an empty source fails with \<open>EmptySource\<close>; otherwise an empty resource
  type fails with \<open>EmptyResourceType\<close>; otherwise a source that does not split into 2
  or 3 segments fails with \<open>InvalidProviderSource\<close>. A failure allocates nothing.
\<close>

theorem TerraformProviderExtensions_check_order:
  "(Version cfg = '''' \<longrightarrow>
      TerraformProviderExtensions h cfg resType = (Inl EmptyProviderVersion, h)) \<and>
   (Version cfg \<noteq> '''' \<and> Source cfg = '''' \<longrightarrow>
      TerraformProviderExtensions h cfg resType = (Inl EmptySource, h)) \<and>
   (Version cfg \<noteq> '''' \<and> Source cfg \<noteq> '''' \<and> resType = '''' \<longrightarrow>
      TerraformProviderExtensions h cfg resType = (Inl EmptyResourceType, h)) \<and>
   (Version cfg \<noteq> '''' \<and> Source cfg \<noteq> '''' \<and> resType \<noteq> '''' \<and>
    length (Split (Source cfg) CHR ''/'') \<noteq> 2 \<and>
    length (Split (Source cfg) CHR ''/'') \<noteq> 3 \<longrightarrow>
      TerraformProviderExtensions h cfg resType = (Inl (InvalidProviderSource (Source cfg)), h))"
  by (simp add: TerraformProviderExtensions_def EmptyProviderVersion_def EmptySource_def
        EmptyResourceType_def InvalidProviderSource_def Let_def)

theorem TerraformProviderExtensions_check_order_witness:
  "TerraformProviderExtensions [] \<lparr>Source = '''', Version = '''', ProviderMeta = None\<rparr> ''''
     = (Inl EmptyProviderVersion, []) \<and>
   TerraformProviderExtensions [] \<lparr>Source = '''', Version = ''5.0.0'', ProviderMeta = None\<rparr> ''''
     = (Inl EmptySource, []) \<and>
   TerraformProviderExtensions [] \<lparr>Source = ''aws'', Version = ''5.0.0'', ProviderMeta = None\<rparr> ''''
     = (Inl EmptyResourceType, []) \<and>
   TerraformProviderExtensions [] \<lparr>Source = ''aws'', Version = ''5.0.0'', ProviderMeta = None\<rparr>
       ''aws_s3_bucket''
     = (Inl (InvalidProviderSource ''aws''), [])"
  using TerraformProviderExtensions_check_order
          [of "\<lparr>Source = '''', Version = '''', ProviderMeta = None\<rparr>" "[]" "''''"]
        TerraformProviderExtensions_check_order
          [of "\<lparr>Source = '''', Version = ''5.0.0'', ProviderMeta = None\<rparr>" "[]" "''''"]
        TerraformProviderExtensions_check_order
          [of "\<lparr>Source = ''aws'', Version = ''5.0.0'', ProviderMeta = None\<rparr>" "[]" "''''"]
        TerraformProviderExtensions_check_order
          [of "\<lparr>Source = ''aws'', Version = ''5.0.0'', ProviderMeta = None\<rparr>" "[]"
              "''aws_s3_bucket''"]
  by simp

text \<open>
  C5. \<open>TerraformProviderExtensions\<close> succeeds on every config with non-empty
  version, source and resource type whose source splits into 2 or 3 segments, and
  whenever it succeeds the returned map has exactly the keys \<^verbatim>\<open>provider\<close>,
  \<^verbatim>\<open>providerMeta\<close> and \<^verbatim>\<open>resourceType\<close>. The \<^verbatim>\<open>providerMeta\<close> entry is
  the config's \<open>ProviderMeta\<close> map itself: the same reference, not a copy, since the
  only object the call allocates is the returned map (at the first free address) and
  every object of the store before the call is unchanged. The \<^verbatim>\<open>resourceType\<close>
  entry is the resource type argument.
\<close>

theorem TerraformProviderExtensions_result:
  "(Version cfg \<noteq> '''' \<and> Source cfg \<noteq> '''' \<and> resType \<noteq> '''' \<and>
    (length (Split (Source cfg) CHR ''/'') = 2 \<or> length (Split (Source cfg) CHR ''/'') = 3)
    \<longrightarrow> (\<exists>m. TerraformProviderExtensions h cfg resType = (Inr (Some (length h)), h @ [m]) \<and>
              dom m = {''provider'', ''providerMeta'', ''resourceType''} \<and>
              m ''providerMeta'' = Some (AnyMap (ProviderMeta cfg)) \<and>
              m ''resourceType'' = Some (AnyString resType))) \<and>
   (TerraformProviderExtensions h cfg resType = (Inr ext, h') \<longrightarrow>
      map_keys h' ext = {''provider'', ''providerMeta'', ''resourceType''} \<and>
      map_index h' ext ''providerMeta'' = Some (AnyMap (ProviderMeta cfg)) \<and>
      map_index h' ext ''resourceType'' = Some (AnyString resType) \<and>
      ext = Some (length h) \<and> length h' = Suc (length h) \<and> take (length h) h' = h)"
proof (rule conjI; rule impI)
  assume valid: "Version cfg \<noteq> '''' \<and> Source cfg \<noteq> '''' \<and> resType \<noteq> '''' \<and>
    (length (Split (Source cfg) CHR ''/'') = 2 \<or> length (Split (Source cfg) CHR ''/'') = 3)"
  then have ne: "Version cfg \<noteq> ''''" "Source cfg \<noteq> ''''" "resType \<noteq> ''''"
    by simp_all
  from valid show "\<exists>m. TerraformProviderExtensions h cfg resType
                        = (Inr (Some (length h)), h @ [m]) \<and>
              dom m = {''provider'', ''providerMeta'', ''resourceType''} \<and>
              m ''providerMeta'' = Some (AnyMap (ProviderMeta cfg)) \<and>
              m ''resourceType'' = Some (AnyString resType)"
    unfolding TerraformProviderExtensions_checked [OF ne] by auto
next
  assume ok: "TerraformProviderExtensions h cfg resType = (Inr ext, h')"
  then have ne: "Version cfg \<noteq> ''''" "Source cfg \<noteq> ''''" "resType \<noteq> ''''"
    by (auto simp: TerraformProviderExtensions_def split: if_splits)
  from ok show "map_keys h' ext = {''provider'', ''providerMeta'', ''resourceType''} \<and>
      map_index h' ext ''providerMeta'' = Some (AnyMap (ProviderMeta cfg)) \<and>
      map_index h' ext ''resourceType'' = Some (AnyString resType) \<and>
      ext = Some (length h) \<and> length h' = Suc (length h) \<and> take (length h) h' = h"
    unfolding TerraformProviderExtensions_checked [OF ne]
    by (auto simp: map_keys_def map_index_def split: if_splits)
qed

theorem TerraformProviderExtensions_result_witness:
  "(\<exists>m. TerraformProviderExtensions [[''region'' \<mapsto> AnyString ''us-east-1'']]
           \<lparr>Source = ''hashicorp/aws'', Version = ''5.0.0'', ProviderMeta = Some 0\<rparr>
           ''aws_s3_bucket''
         = (Inr (Some 1), [[''region'' \<mapsto> AnyString ''us-east-1''], m]) \<and>
       dom m = {''provider'', ''providerMeta'', ''resourceType''} \<and>
       m ''providerMeta'' = Some (AnyMap (Some 0)) \<and>
       m ''resourceType'' = Some (AnyString ''aws_s3_bucket'')) \<and>
   TerraformProviderExtensions [[''region'' \<mapsto> AnyString ''us-east-1'']]
       \<lparr>Source = ''hashicorp/aws'', Version = ''5.0.0'', ProviderMeta = Some 0\<rparr>
       ''aws_s3_bucket''
     = (Inr (Some 1),
        [[''region'' \<mapsto> AnyString ''us-east-1''],
         [''provider'' \<mapsto> AnyString ''registry.terraform.io/hashicorp/aws/5.0.0'',
          ''providerMeta'' \<mapsto> AnyMap (Some 0),
          ''resourceType'' \<mapsto> AnyString ''aws_s3_bucket'']]) \<and>
   map_keys
     [[''region'' \<mapsto> AnyString ''us-east-1''],
      [''provider'' \<mapsto> AnyString ''registry.terraform.io/hashicorp/aws/5.0.0'',
       ''providerMeta'' \<mapsto> AnyMap (Some 0),
       ''resourceType'' \<mapsto> AnyString ''aws_s3_bucket'']]
     (Some 1) = {''provider'', ''providerMeta'', ''resourceType''} \<and>
   map_index
     [[''region'' \<mapsto> AnyString ''us-east-1''],
      [''provider'' \<mapsto> AnyString ''registry.terraform.io/hashicorp/aws/5.0.0'',
       ''providerMeta'' \<mapsto> AnyMap (Some 0),
       ''resourceType'' \<mapsto> AnyString ''aws_s3_bucket'']]
     (Some 1) ''providerMeta'' = Some (AnyMap (Some 0))"
proof -
  let ?h = "[[''region'' \<mapsto> AnyString ''us-east-1'']]"
  let ?cfg = "\<lparr>Source = ''hashicorp/aws'', Version = ''5.0.0'', ProviderMeta = Some 0\<rparr>"
  let ?h' = "[[''region'' \<mapsto> AnyString ''us-east-1''],
      [''provider'' \<mapsto> AnyString ''registry.terraform.io/hashicorp/aws/5.0.0'',
       ''providerMeta'' \<mapsto> AnyMap (Some 0),
       ''resourceType'' \<mapsto> AnyString ''aws_s3_bucket'']]"
  note inst = TerraformProviderExtensions_result
               [of ?cfg "''aws_s3_bucket''" ?h "Some 1" ?h']
  have valid: "Version ?cfg \<noteq> '''' \<and> Source ?cfg \<noteq> '''' \<and> ''aws_s3_bucket'' \<noteq> '''' \<and>
    (length (Split (Source ?cfg) CHR ''/'') = 2 \<or> length (Split (Source ?cfg) CHR ''/'') = 3)"
    by simp
  have run: "TerraformProviderExtensions ?h ?cfg ''aws_s3_bucket'' = (Inr (Some 1), ?h')"
    by (simp add: TerraformProviderExtensions_def make_map_def defaultTFHost_def)
  from inst valid
  have a: "\<exists>m. TerraformProviderExtensions ?h ?cfg ''aws_s3_bucket''
                 = (Inr (Some (length ?h)), ?h @ [m]) \<and>
              dom m = {''provider'', ''providerMeta'', ''resourceType''} \<and>
              m ''providerMeta'' = Some (AnyMap (ProviderMeta ?cfg)) \<and>
              m ''resourceType'' = Some (AnyString ''aws_s3_bucket'')"
    by blast
  from inst run
  have b: "map_keys ?h' (Some 1) = {''provider'', ''providerMeta'', ''resourceType''} \<and>
           map_index ?h' (Some 1) ''providerMeta'' = Some (AnyMap (ProviderMeta ?cfg))"
    by blast
  from a have a': "\<exists>m. TerraformProviderExtensions ?h ?cfg ''aws_s3_bucket''
                 = (Inr (Some 1), [[''region'' \<mapsto> AnyString ''us-east-1''], m]) \<and>
              dom m = {''provider'', ''providerMeta'', ''resourceType''} \<and>
              m ''providerMeta'' = Some (AnyMap (Some 0)) \<and>
              m ''resourceType'' = Some (AnyString ''aws_s3_bucket'')"
    by simp
  from b have b': "map_keys ?h' (Some 1) = {''provider'', ''providerMeta'', ''resourceType''} \<and>
           map_index ?h' (Some 1) ''providerMeta'' = Some (AnyMap (Some 0))"
    by simp
  from a' run b' show ?thesis by blast
qed

subsection \<open>The Kubernetes resource identifier\<close>

text \<open>
  C6. \<open>KubernetesResourceID\<close> returns
  \<^verbatim>\<open>apiVersion + ":" + kind + ":" + namespace + ":" + name\<close> when the namespace is
  not empty and \<^verbatim>\<open>apiVersion + ":" + kind + ":" + name\<close> when it is: the four
  strings appear as they are, and an empty namespace adds no empty token.
\<close>

theorem KubernetesResourceID_grammar:
  "(Namespace objectMeta \<noteq> '''' \<longrightarrow>
      KubernetesResourceID typeMeta objectMeta =
        APIVersion typeMeta @ '':'' @ Kind typeMeta @ '':'' @ Namespace objectMeta @ '':''
          @ Name objectMeta) \<and>
   (Namespace objectMeta = '''' \<longrightarrow>
      KubernetesResourceID typeMeta objectMeta =
        APIVersion typeMeta @ '':'' @ Kind typeMeta @ '':'' @ Name objectMeta)"
  by (simp add: KubernetesResourceID_def)

theorem KubernetesResourceID_grammar_witness:
  "KubernetesResourceID \<lparr>APIVersion = ''apps/v1'', Kind = ''Deployment''\<rparr>
       \<lparr>Name = ''nginx-deployment'', Namespace = ''nginx''\<rparr>
     = ''apps/v1:Deployment:nginx:nginx-deployment'' \<and>
   KubernetesResourceID \<lparr>APIVersion = ''v1'', Kind = ''Namespace''\<rparr>
       \<lparr>Name = ''nginx'', Namespace = ''''\<rparr>
     = ''v1:Namespace:nginx''"
  using KubernetesResourceID_grammar
          [of "\<lparr>Name = ''nginx-deployment'', Namespace = ''nginx''\<rparr>"
              "\<lparr>APIVersion = ''apps/v1'', Kind = ''Deployment''\<rparr>"]
        KubernetesResourceID_grammar
          [of "\<lparr>Name = ''nginx'', Namespace = ''''\<rparr>"
              "\<lparr>APIVersion = ''v1'', Kind = ''Namespace''\<rparr>"]
  by simp

text \<open>
  C7, as amended. When none of apiVersion, kind, namespace and name contains the
  character \<^verbatim>\<open>:\<close>, the id splits on \<^verbatim>\<open>:\<close> into exactly three segments if the
  namespace is empty and into exactly four if it is not. (In general every \<^verbatim>\<open>:\<close> of
  an input adds a segment, as \<open>KubernetesResourceID_segments\<close> says: the inputs are not
  escaped.)
\<close>

theorem KubernetesResourceID_segment_count:
  assumes "CHR '':'' \<notin> set (APIVersion typeMeta)" and "CHR '':'' \<notin> set (Kind typeMeta)"
    and "CHR '':'' \<notin> set (Namespace objectMeta)" and "CHR '':'' \<notin> set (Name objectMeta)"
  shows "length (Split (KubernetesResourceID typeMeta objectMeta) CHR '':'') =
           (if Namespace objectMeta = '''' then 3 else 4)"
proof -
  have "count_list
          (APIVersion typeMeta @ Kind typeMeta @ Namespace objectMeta @ Name objectMeta)
          CHR '':'' = 0"
    using assms by (intro count_list_zero) simp
  then show ?thesis
    by (simp only: KubernetesResourceID_segments add_0_right)
qed

theorem KubernetesResourceID_segment_count_witness:
  "length (Split (KubernetesResourceID \<lparr>APIVersion = ''apps/v1'', Kind = ''Deployment''\<rparr>
       \<lparr>Name = ''nginx-deployment'', Namespace = ''nginx''\<rparr>) CHR '':'') = 4 \<and>
   length (Split (KubernetesResourceID \<lparr>APIVersion = ''v1'', Kind = ''Namespace''\<rparr>
       \<lparr>Name = ''nginx'', Namespace = ''''\<rparr>) CHR '':'') = 3"
  using KubernetesResourceID_segment_count
          [of "\<lparr>APIVersion = ''apps/v1'', Kind = ''Deployment''\<rparr>"
              "\<lparr>Name = ''nginx-deployment'', Namespace = ''nginx''\<rparr>"]
        KubernetesResourceID_segment_count
          [of "\<lparr>APIVersion = ''v1'', Kind = ''Namespace''\<rparr>"
              "\<lparr>Name = ''nginx'', Namespace = ''''\<rparr>"]
  by simp

text \<open>
  The cluster role \<^verbatim>\<open>system:node\<close> is not namespaced and its name contains a colon:
  its id splits into four segments, not three.
\<close>

theorem KubernetesResourceID_colon_counterexample:
  "Namespace \<lparr>Name = ''system:node'', Namespace = ''''\<rparr> = '''' \<and>
   KubernetesResourceID
       \<lparr>APIVersion = ''rbac.authorization.k8s.io/v1'', Kind = ''ClusterRole''\<rparr>
       \<lparr>Name = ''system:node'', Namespace = ''''\<rparr>
     = ''rbac.authorization.k8s.io/v1:ClusterRole:system:node'' \<and>
   length (Split (KubernetesResourceID
                    \<lparr>APIVersion = ''rbac.authorization.k8s.io/v1'', Kind = ''ClusterRole''\<rparr>
                    \<lparr>Name = ''system:node'', Namespace = ''''\<rparr>) CHR '':'') = 4"
  by (simp add: KubernetesResourceID_def)

subsection \<open>Wrapping a Terraform resource\<close>

text \<open>
  C8. \<open>WrapTFResourceToKusionResource\<close> fails exactly when
  \<open>TerraformProviderExtensions\<close> fails on the same config and resource type, and then
  returns that error and no record; when the extensions are computed it returns the
  record with type \<open>Terraform\<close>, the id, the attributes map and the dependency list it
  was given, and those extensions.
\<close>

theorem WrapTFResourceToKusionResource_result:
  "(TerraformProviderExtensions h cfg resType = (Inl err, h') \<longrightarrow>
      WrapTFResourceToKusionResource h cfg resType resourceID attributes dependsOn
        = (Inl err, h')) \<and>
   (TerraformProviderExtensions h cfg resType = (Inr ext, h') \<longrightarrow>
      WrapTFResourceToKusionResource h cfg resType resourceID attributes dependsOn
        = (Inr \<lparr>ID = resourceID, Type = Terraform, Attributes = attributes,
                 DependsOn = dependsOn, Extensions = ext\<rparr>, h')) \<and>
   isl (fst (WrapTFResourceToKusionResource h cfg resType resourceID attributes dependsOn))
     = isl (fst (TerraformProviderExtensions h cfg resType))"
  by (auto simp: WrapTFResourceToKusionResource_def split: prod.splits sum.splits)

theorem WrapTFResourceToKusionResource_result_witness:
  "WrapTFResourceToKusionResource [Map.empty]
       \<lparr>Source = ''hashicorp/aws'', Version = '''', ProviderMeta = None\<rparr>
       ''aws_s3_bucket'' ''hashicorp:aws:aws_s3_bucket:b'' (Some 0) (Some [''dep''])
     = (Inl ErrEmptyTFProviderVersion, [Map.empty]) \<and>
   WrapTFResourceToKusionResource [Map.empty]
       \<lparr>Source = ''hashicorp/aws'', Version = ''5.0.0'', ProviderMeta = None\<rparr>
       ''aws_s3_bucket'' ''hashicorp:aws:aws_s3_bucket:b'' (Some 0) (Some [''dep''])
     = (Inr \<lparr>ID = ''hashicorp:aws:aws_s3_bucket:b'', Type = Terraform, Attributes = Some 0,
              DependsOn = Some [''dep''], Extensions = Some 1\<rparr>,
        [Map.empty,
         [''provider'' \<mapsto> AnyString ''registry.terraform.io/hashicorp/aws/5.0.0'',
          ''providerMeta'' \<mapsto> AnyMap None,
          ''resourceType'' \<mapsto> AnyString ''aws_s3_bucket'']])"
proof -
  let ?bad = "\<lparr>Source = ''hashicorp/aws'', Version = '''', ProviderMeta = None\<rparr>"
  let ?good = "\<lparr>Source = ''hashicorp/aws'', Version = ''5.0.0'', ProviderMeta = None\<rparr>"
  let ?h' = "[Map.empty,
         [''provider'' \<mapsto> AnyString ''registry.terraform.io/hashicorp/aws/5.0.0'',
          ''providerMeta'' \<mapsto> AnyMap None,
          ''resourceType'' \<mapsto> AnyString ''aws_s3_bucket'']]"
  have fails: "TerraformProviderExtensions [Map.empty] ?bad ''aws_s3_bucket''
                 = (Inl ErrEmptyTFProviderVersion, [Map.empty])"
    by (simp add: TerraformProviderExtensions_def)
  have succeeds: "TerraformProviderExtensions [Map.empty] ?good ''aws_s3_bucket''
                 = (Inr (Some 1), ?h')"
    by (simp add: TerraformProviderExtensions_def make_map_def defaultTFHost_def)
  from WrapTFResourceToKusionResource_result
         [of "[Map.empty]" ?bad "''aws_s3_bucket''" ErrEmptyTFProviderVersion "[Map.empty]"]
       fails
  have a: "WrapTFResourceToKusionResource [Map.empty] ?bad ''aws_s3_bucket''
             ''hashicorp:aws:aws_s3_bucket:b'' (Some 0) (Some [''dep''])
           = (Inl ErrEmptyTFProviderVersion, [Map.empty])"
    by blast
  from WrapTFResourceToKusionResource_result
         [of "[Map.empty]" ?good "''aws_s3_bucket''" _ ?h' _ _ _ "Some 1"]
       succeeds
  have b: "WrapTFResourceToKusionResource [Map.empty] ?good ''aws_s3_bucket''
             ''hashicorp:aws:aws_s3_bucket:b'' (Some 0) (Some [''dep''])
           = (Inr \<lparr>ID = ''hashicorp:aws:aws_s3_bucket:b'', Type = Terraform,
                    Attributes = Some 0, DependsOn = Some [''dep''], Extensions = Some 1\<rparr>, ?h')"
    by blast
  from a b show ?thesis by (rule conjI)
qed

subsection \<open>The provider region\<close>

text \<open>
  C9, as amended. If the \<open>ProviderMeta\<close> map binds the key \<^verbatim>\<open>region\<close> to a value
  that is not a string, \<open>TerraformProviderRegion\<close> panics on the type assertion and
  returns nothing. It returns the empty string exactly when the key is absent or is
  bound to the empty string.
\<close>

theorem TerraformProviderRegion_cases:
  "(map_index h (ProviderMeta cfg) ''region'' = Some v \<and> (\<forall>s. v \<noteq> AnyString s) \<longrightarrow>
      TerraformProviderRegion h cfg = Panics) \<and>
   (TerraformProviderRegion h cfg = Returns '''')
     = (map_index h (ProviderMeta cfg) ''region'' = None \<or>
        map_index h (ProviderMeta cfg) ''region'' = Some (AnyString ''''))"
  by (auto simp: TerraformProviderRegion_def split: option.splits any.splits)

theorem TerraformProviderRegion_cases_witness:
  "TerraformProviderRegion [[''region'' \<mapsto> AnyInt 1]]
       \<lparr>Source = ''hashicorp/aws'', Version = ''5.0.0'', ProviderMeta = Some 0\<rparr>
     = Panics \<and>
   TerraformProviderRegion [[''zone'' \<mapsto> AnyInt 1]]
       \<lparr>Source = ''hashicorp/aws'', Version = ''5.0.0'', ProviderMeta = Some 0\<rparr>
     = Returns ''''"
  using TerraformProviderRegion_cases
          [of "[[''region'' \<mapsto> AnyInt 1]]"
              "\<lparr>Source = ''hashicorp/aws'', Version = ''5.0.0'', ProviderMeta = Some 0\<rparr>"
              "AnyInt 1"]
        TerraformProviderRegion_cases
          [of "[[''zone'' \<mapsto> AnyInt 1]]"
              "\<lparr>Source = ''hashicorp/aws'', Version = ''5.0.0'', ProviderMeta = Some 0\<rparr>"
              "AnyInt 1"]
  by (simp add: map_index_def)

text \<open>
  A \<^verbatim>\<open>region\<close> bound to the empty string: the key is present and the function
  returns the empty string.
\<close>

theorem TerraformProviderRegion_empty_string_counterexample:
  "map_index [[''region'' \<mapsto> AnyString '''']]
       (ProviderMeta \<lparr>Source = ''hashicorp/aws'', Version = ''5.0.0'', ProviderMeta = Some 0\<rparr>)
       ''region'' = Some (AnyString '''') \<and>
   TerraformProviderRegion [[''region'' \<mapsto> AnyString '''']]
       \<lparr>Source = ''hashicorp/aws'', Version = ''5.0.0'', ProviderMeta = Some 0\<rparr>
     = Returns ''''"
  by (simp add: TerraformProviderRegion_def map_index_def)

subsection \<open>Wrapping a Kubernetes resource\<close>

text \<open>
  C10. If the resource does not implement \<^verbatim>\<open>runtime.Object\<close>,
  \<open>WrapK8sResourceToKusionResource\<close> panics on the type assertion, before any error
  return. So it returns the conversion error only for a resource that implements the
  interface (and whose kind can be read without a panic), and for such a resource it
  returns the error the conversion gives. A resource that passes the assertion can
  still panic when its kind is read.
\<close>

theorem WrapK8sResourceToKusionResource_panics:
  "(assert_Object rt resource = None \<longrightarrow>
      WrapK8sResourceToKusionResource rt h id' resource = Panics) \<and>
   (WrapK8sResourceToKusionResource rt h id' resource = Returns (Inl err, h') \<longrightarrow>
      (\<exists>obj gvk. assert_Object rt resource = Some obj \<and>
                 GroupVersionKind_String rt obj = Returns gvk) \<and>
      ToUnstructured rt h resource = Returns (Inl err, h')) \<and>
   (assert_Object rt resource = Some obj \<and> GroupVersionKind_String rt obj = Returns gvk \<and>
    ToUnstructured rt h resource = Returns (Inl err, h') \<longrightarrow>
      WrapK8sResourceToKusionResource rt h id' resource = Returns (Inl err, h')) \<and>
   (assert_Object rt resource = Some obj \<and> GroupVersionKind_String rt obj = Panics \<longrightarrow>
      WrapK8sResourceToKusionResource rt h id' resource = Panics)"
  by (auto simp: WrapK8sResourceToKusionResource_def make_map_def Let_def
           split: option.splits prod.splits sum.splits result.splits)

theorem WrapK8sResourceToKusionResource_panics_witness:
  "WrapK8sResourceToKusionResource
     \<lparr>assert_Object = (\<lambda>r::nat. if r = 0 then None else Some r),
       GroupVersionKind_String =
         (\<lambda>obj. if obj = 1 then Panics else Returns ''apps/v1, Kind=Deployment''),
       ToUnstructured = (\<lambda>h r. Returns (Inl (Errorf ''conversion failed''), h)),
       ResourceExtensionGVK = ''GVK''\<rparr> [] ''apps/v1:Deployment:nginx:web'' 0 = Panics \<and>
   WrapK8sResourceToKusionResource
     \<lparr>assert_Object = (\<lambda>r::nat. if r = 0 then None else Some r),
       GroupVersionKind_String =
         (\<lambda>obj. if obj = 1 then Panics else Returns ''apps/v1, Kind=Deployment''),
       ToUnstructured = (\<lambda>h r. Returns (Inl (Errorf ''conversion failed''), h)),
       ResourceExtensionGVK = ''GVK''\<rparr> [] ''apps/v1:Deployment:nginx:web'' 1 = Panics \<and>
   WrapK8sResourceToKusionResource
     \<lparr>assert_Object = (\<lambda>r::nat. if r = 0 then None else Some r),
       GroupVersionKind_String =
         (\<lambda>obj. if obj = 1 then Panics else Returns ''apps/v1, Kind=Deployment''),
       ToUnstructured = (\<lambda>h r. Returns (Inl (Errorf ''conversion failed''), h)),
       ResourceExtensionGVK = ''GVK''\<rparr> [] ''apps/v1:Deployment:nginx:web'' 2
     = Returns (Inl (Errorf ''conversion failed''), []) \<and>
   assert_Object
     \<lparr>assert_Object = (\<lambda>r::nat. if r = 0 then None else Some r),
       GroupVersionKind_String =
         (\<lambda>obj. if obj = 1 then Panics else Returns ''apps/v1, Kind=Deployment''),
       ToUnstructured = (\<lambda>h r. Returns (Inl (Errorf ''conversion failed''), h)),
       ResourceExtensionGVK = ''GVK''\<rparr> 2 \<noteq> None"
proof -
  let ?rt = "\<lparr>assert_Object = (\<lambda>r::nat. if r = 0 then None else Some r),
       GroupVersionKind_String =
         (\<lambda>obj. if obj = 1 then Panics else Returns ''apps/v1, Kind=Deployment''),
       ToUnstructured = (\<lambda>h r. Returns (Inl (Errorf ''conversion failed''), h)),
       ResourceExtensionGVK = ''GVK''\<rparr>"
  let ?id = "''apps/v1:Deployment:nginx:web''"
  let ?err = "Errorf ''conversion failed''"
  have no: "assert_Object ?rt 0 = None" by simp
  have nil: "assert_Object ?rt 1 = Some 1 \<and> GroupVersionKind_String ?rt 1 = Panics"
    by simp
  have obj: "assert_Object ?rt 2 = Some 2 \<and>
             GroupVersionKind_String ?rt 2 = Returns ''apps/v1, Kind=Deployment'' \<and>
             ToUnstructured ?rt [] 2 = Returns (Inl ?err, [])"
    by simp
  from WrapK8sResourceToKusionResource_panics [of ?rt 0 "[]" ?id] no
  have a: "WrapK8sResourceToKusionResource ?rt [] ?id 0 = Panics"
    by blast
  from WrapK8sResourceToKusionResource_panics [of ?rt 1 "[]" ?id _ _ 1] nil
  have b: "WrapK8sResourceToKusionResource ?rt [] ?id 1 = Panics"
    by blast
  from WrapK8sResourceToKusionResource_panics
         [of ?rt 2 "[]" ?id ?err "[]" 2 "''apps/v1, Kind=Deployment''"] obj
  have c: "WrapK8sResourceToKusionResource ?rt [] ?id 2 = Returns (Inl ?err, [])"
    by blast
  from WrapK8sResourceToKusionResource_panics
         [of ?rt 2 "[]" ?id ?err "[]" 2 "''apps/v1, Kind=Deployment''"] c
  have d: "assert_Object ?rt 2 \<noteq> None"
    by blast
  from a b c d show ?thesis by blast
qed

end
